theory Spec2Isabelle
  imports Main
begin

section \<open>pandas-decorators: column checks around dataframe functions\<close>

text \<open>
  The module \<^verbatim>\<open>pandas_decorators.py\<close> wraps a function with run-time checks on the
  dataframe it receives (\<^verbatim>\<open>df_in\<close>) or returns (\<^verbatim>\<open>df_out\<close>), and with logging of the
  columns that flow through it (\<^verbatim>\<open>df_log\<close>). The definitions below follow the source
  function by function. Exceptions are values of a sum type, the effects of the wrapped
  function and of \<^verbatim>\<open>logging.log\<close> are threaded through an explicit world, and every
  \<^verbatim>\<open>assert\<close> is executed (the interpreter is not run with \<^verbatim>\<open>-O\<close>).
\<close>

subsection \<open>Data\<close>

text \<open>
  pandas is a library, not part of the module. A dataframe is modelled by the two
  observations the module makes of it: the sequence \<^verbatim>\<open>df.columns\<close> of column labels and
  the element type \<^verbatim>\<open>df[column].dtype\<close> of the column with a given label. Element-type
  tokens are an arbitrary type \<open>'d\<close>, compared with equality as \<^verbatim>\<open>==\<close> does.
\<close>

record 'd dataframe =
  columns :: "string list"
  dtype :: "string \<Rightarrow> 'd"

text \<open>\<^verbatim>\<open>ColumnsDef = Union[List, Dict]\<close>. A dict is the list of its items in
  iteration order; its keys are distinct.\<close>

datatype 'd columns_def =
    ListSpec "string list"
  | DictSpec "(string \<times> 'd) list"

text \<open>Some dtype tokens, for the examples.\<close>

datatype np_dtype = Int64 | Float64 | Object

text \<open>The Python values that reach the decorators as arguments and results.\<close>

datatype 'd pyvalue =
    NoneV
  | IntV int
  | StrV string
  | DataFrame "'d dataframe"

text \<open>The result of \<^verbatim>\<open>_describe_pd\<close>: the column list, and the dtypes when they were
  asked for.\<close>

datatype 'd description = Description "string list" "'d list option"

text \<open>The messages of the module's assertions, with the values they interpolate.\<close>

datatype 'd assertion =
    ColumnMissing string "'d description"
  | WrongDtype string 'd 'd
  | UnexpectedColumns "string set"
  | WrongParameterType string
  | WrongReturnType string
  | UserAssertion string

datatype 'd exn =
    AssertionError "'d assertion"
  | TypeError_multiple_values
  | ValueError_not_in_list string
  | IndexError
  | Raised string

datatype 'd log_message =
    ParametersContained string "'d description"
  | Returned string "'d description"

record ('d, 's) world =
  log :: "(int \<times> 'd log_message) list"
  heap :: 's

text \<open>
  A wrapped function: its \<^verbatim>\<open>__name__\<close>, the parameter names of its signature in
  declaration order, and what a call \<^verbatim>\<open>func(*args, **kwargs)\<close> does to the world
  (it returns a value or raises).
\<close>

record ('d, 's) pyfunc =
  fname :: string
  params :: "string list"
  body :: "'d pyvalue list \<Rightarrow> (string \<rightharpoonup> 'd pyvalue) \<Rightarrow> ('d, 's) world
            \<Rightarrow> ('d exn + 'd pyvalue) \<times> ('d, 's) world"

subsection \<open>Helpers of the Python runtime\<close>

fun isinstance_DataFrame :: "'d pyvalue \<Rightarrow> bool" where
  "isinstance_DataFrame (DataFrame d) = True"
| "isinstance_DataFrame v = False"

fun type_name :: "'d pyvalue \<Rightarrow> string" where
  "type_name NoneV = ''NoneType''"
| "type_name (IntV i) = ''int''"
| "type_name (StrV s) = ''str''"
| "type_name (DataFrame d) = ''DataFrame''"

text \<open>Truthiness of \<^verbatim>\<open>columns\<close> in \<^verbatim>\<open>if columns:\<close> and of \<^verbatim>\<open>name\<close> in
  \<^verbatim>\<open>if not name:\<close>.\<close>

fun truthy_columns :: "'d columns_def option \<Rightarrow> bool" where
  "truthy_columns None = False"
| "truthy_columns (Some (ListSpec l)) = (l \<noteq> [])"
| "truthy_columns (Some (DictSpec d)) = (d \<noteq> [])"

fun truthy_name :: "string option \<Rightarrow> bool" where
  "truthy_name None = False"
| "truthy_name (Some n) = (n \<noteq> [])"

text \<open>\<^verbatim>\<open>len(columns)\<close> and \<^verbatim>\<open>set(columns)\<close> of a specification.\<close>

fun len_columns :: "'d columns_def \<Rightarrow> nat" where
  "len_columns (ListSpec l) = length l"
| "len_columns (DictSpec d) = length d"

fun set_columns :: "'d columns_def \<Rightarrow> string set" where
  "set_columns (ListSpec l) = set l"
| "set_columns (DictSpec d) = set (map fst d)"

text \<open>\<^verbatim>\<open>list.index\<close>: the first position of an element, or ValueError.\<close>

fun index_of :: "string list \<Rightarrow> string \<Rightarrow> nat option" where
  "index_of [] x = None"
| "index_of (y # ys) x = (if y = x then Some 0 else map_option Suc (index_of ys x))"

subsection \<open>The column checker\<close>

definition describe_pd :: "'d dataframe \<Rightarrow> bool \<Rightarrow> 'd description" where
  "describe_pd df include_dtypes =
     Description (columns df)
       (if include_dtypes then Some (map (dtype df) (columns df)) else None)"

text \<open>The loop over a list specification (lines 18 to 19).\<close>

fun check_list :: "'d dataframe \<Rightarrow> string list \<Rightarrow> 'd exn + unit" where
  "check_list df [] = Inr ()"
| "check_list df (column # rest) =
     (if column \<in> set (columns df) then check_list df rest
      else Inl (AssertionError (ColumnMissing column (describe_pd df False))))"

text \<open>The loop over the items of a dict specification (lines 21 to 25).\<close>

fun check_dict :: "'d dataframe \<Rightarrow> (string \<times> 'd) list \<Rightarrow> 'd exn + unit" where
  "check_dict df [] = Inr ()"
| "check_dict df ((column, dt) # rest) =
     (if column \<in> set (columns df) then
        (if dtype df column = dt then check_dict df rest
         else Inl (AssertionError (WrongDtype column (dtype df column) dt)))
      else Inl (AssertionError (ColumnMissing column (describe_pd df False))))"

definition check_strict :: "'d dataframe \<Rightarrow> 'd columns_def \<Rightarrow> bool \<Rightarrow> 'd exn + unit" where
  "check_strict df cols strict =
     (if strict then
        (if length (columns df) = len_columns cols then Inr ()
         else Inl (AssertionError (UnexpectedColumns (set (columns df) - set_columns cols))))
      else Inr ())"

definition check_columns :: "'d dataframe \<Rightarrow> 'd columns_def \<Rightarrow> bool \<Rightarrow> 'd exn + unit" where
  "check_columns df cols strict =
     (case (case cols of ListSpec l \<Rightarrow> check_list df l | DictSpec d \<Rightarrow> check_dict df d) of
        Inl e \<Rightarrow> Inl e
      | Inr u \<Rightarrow> check_strict df cols strict)"

subsection \<open>The parameter locator\<close>

text \<open>The body of \<^verbatim>\<open>_get_parameter\<close> (lines 58 to 68); \<open>kwargs\<close> is the dictionary
  bound to its \<^verbatim>\<open>**kwargs\<close> parameter.\<close>

definition get_parameter ::
  "('d, 's) pyfunc \<Rightarrow> string option \<Rightarrow> 'd pyvalue list \<Rightarrow> (string \<rightharpoonup> 'd pyvalue)
     \<Rightarrow> 'd exn + 'd pyvalue" where
  "get_parameter func name args kwargs =
     (if \<not> truthy_name name then
        (case args of [] \<Rightarrow> Inr NoneV | a # _ \<Rightarrow> Inr a)
      else if kwargs (the name) = None then
        (case index_of (params func) (the name) of
           None \<Rightarrow> Inl (ValueError_not_in_list (the name))
         | Some parameter_location \<Rightarrow>
             (if parameter_location < length args then Inr (args ! parameter_location)
              else Inl IndexError))
      else Inr (the (kwargs (the name))))"

text \<open>
  The call \<^verbatim>\<open>_get_parameter(func, name, *args, **kwargs)\<close> of the wrappers (lines 87
  and 136). The callee declares \<^verbatim>\<open>(func, name=None, *args, **kwargs)\<close>, and both
  \<^verbatim>\<open>func\<close> and \<^verbatim>\<open>name\<close> are bound by position: a keyword of the caller that is
  spelled \<^verbatim>\<open>func\<close> or \<^verbatim>\<open>name\<close> is a second value for the same parameter, and Python
  raises TypeError before the body runs.
\<close>

definition call_get_parameter ::
  "('d, 's) pyfunc \<Rightarrow> string option \<Rightarrow> 'd pyvalue list \<Rightarrow> (string \<rightharpoonup> 'd pyvalue)
     \<Rightarrow> 'd exn + 'd pyvalue" where
  "call_get_parameter func name args kwargs =
     (if kwargs ''func'' \<noteq> None \<or> kwargs ''name'' \<noteq> None then Inl TypeError_multiple_values
      else get_parameter func name args kwargs)"

subsection \<open>The decorators\<close>

text \<open>The \<^verbatim>\<open>wrapper\<close> that \<^verbatim>\<open>df_in(name, columns, strict)(func)\<close> returns, called
  with \<^verbatim>\<open>*args, **kwargs\<close> (lines 86 to 93).\<close>

definition df_in ::
  "string option \<Rightarrow> 'd columns_def option \<Rightarrow> bool \<Rightarrow> ('d, 's) pyfunc
     \<Rightarrow> 'd pyvalue list \<Rightarrow> (string \<rightharpoonup> 'd pyvalue) \<Rightarrow> ('d, 's) world
     \<Rightarrow> ('d exn + 'd pyvalue) \<times> ('d, 's) world" where
  "df_in name cols strict func args kwargs w =
     (case call_get_parameter func name args kwargs of
        Inl e \<Rightarrow> (Inl e, w)
      | Inr v \<Rightarrow>
          (case v of
             DataFrame df \<Rightarrow>
               (if truthy_columns cols then
                  (case check_columns df (the cols) strict of
                     Inl e \<Rightarrow> (Inl e, w)
                   | Inr u \<Rightarrow> body func args kwargs w)
                else body func args kwargs w)
           | _ \<Rightarrow> (Inl (AssertionError (WrongParameterType (type_name v))), w)))"

text \<open>The \<^verbatim>\<open>wrapper\<close> of \<^verbatim>\<open>df_out(columns, strict)(func)\<close> (lines 46 to 51).\<close>

definition df_out ::
  "'d columns_def option \<Rightarrow> bool \<Rightarrow> ('d, 's) pyfunc
     \<Rightarrow> 'd pyvalue list \<Rightarrow> (string \<rightharpoonup> 'd pyvalue) \<Rightarrow> ('d, 's) world
     \<Rightarrow> ('d exn + 'd pyvalue) \<times> ('d, 's) world" where
  "df_out cols strict func args kwargs w =
     (case body func args kwargs w of
        (Inl e, w') \<Rightarrow> (Inl e, w')
      | (Inr result, w') \<Rightarrow>
          (case result of
             DataFrame df \<Rightarrow>
               (if truthy_columns cols then
                  (case check_columns df (the cols) strict of
                     Inl e \<Rightarrow> (Inl e, w')
                   | Inr u \<Rightarrow> (Inr result, w'))
                else (Inr result, w'))
           | _ \<Rightarrow> (Inl (AssertionError (WrongReturnType (type_name result))), w')))"

text \<open>\<^verbatim>\<open>_log_input\<close> and \<^verbatim>\<open>_log_output\<close>: one record for a dataframe, nothing
  otherwise.\<close>

definition log_input :: "int \<Rightarrow> string \<Rightarrow> 'd pyvalue \<Rightarrow> bool \<Rightarrow> ('d, 's) world \<Rightarrow> ('d, 's) world" where
  "log_input level func_name v include_dtypes w =
     (case v of
        DataFrame df \<Rightarrow>
          w\<lparr>log := log w @ [(level, ParametersContained func_name (describe_pd df include_dtypes))]\<rparr>
      | _ \<Rightarrow> w)"

definition log_output :: "int \<Rightarrow> string \<Rightarrow> 'd pyvalue \<Rightarrow> bool \<Rightarrow> ('d, 's) world \<Rightarrow> ('d, 's) world" where
  "log_output level func_name v include_dtypes w =
     (case v of
        DataFrame df \<Rightarrow>
          w\<lparr>log := log w @ [(level, Returned func_name (describe_pd df include_dtypes))]\<rparr>
      | _ \<Rightarrow> w)"

text \<open>The \<^verbatim>\<open>wrapper\<close> of \<^verbatim>\<open>df_log(level, include_dtypes)(func)\<close> (lines 135 to 138):
  it ends without a \<^verbatim>\<open>return\<close>.\<close>

definition df_log ::
  "int \<Rightarrow> bool \<Rightarrow> ('d, 's) pyfunc
     \<Rightarrow> 'd pyvalue list \<Rightarrow> (string \<rightharpoonup> 'd pyvalue) \<Rightarrow> ('d, 's) world
     \<Rightarrow> ('d exn + 'd pyvalue) \<times> ('d, 's) world" where
  "df_log level include_dtypes func args kwargs w =
     (case call_get_parameter func None args kwargs of
        Inl e \<Rightarrow> (Inl e, w)
      | Inr p \<Rightarrow>
          (case body func args kwargs (log_input level (fname func) p include_dtypes w) of
             (Inl e, w') \<Rightarrow> (Inl e, w')
           | (Inr result, w') \<Rightarrow>
               (Inr NoneV, log_output level (fname func) result include_dtypes w')))"

subsection \<open>Example functions and values\<close>

text \<open>A dataframe, functions that count their calls in the heap, and the world before
  any call.\<close>

definition frame_ab :: "np_dtype dataframe" where
  "frame_ab = \<lparr>columns = [''a'', ''b''], dtype = (\<lambda>c. Int64)\<rparr>"

definition probe :: "(np_dtype, nat) pyfunc" where
  "probe = \<lparr>fname = ''probe'', params = [''df'', ''n''],
             body = (\<lambda>args kwargs w. (Inr (IntV 7), w\<lparr>heap := Suc (heap w)\<rparr>))\<rparr>"

definition failing :: "(np_dtype, nat) pyfunc" where
  "failing = \<lparr>fname = ''failing'', params = [''df''],
               body = (\<lambda>args kwargs w. (Inl (Raised ''boom''), w\<lparr>heap := Suc (heap w)\<rparr>))\<rparr>"

definition make_frame :: "(np_dtype, nat) pyfunc" where
  "make_frame = \<lparr>fname = ''make_frame'', params = [],
                  body = (\<lambda>args kwargs w. (Inr (DataFrame frame_ab), w\<lparr>heap := Suc (heap w)\<rparr>))\<rparr>"

definition world0 :: "(np_dtype, nat) world" where
  "world0 = \<lparr>log = [], heap = 0\<rparr>"

definition by_name :: "(np_dtype, nat) pyfunc" where
  "by_name = \<lparr>fname = ''by_name'', params = [''name''],
               body = (\<lambda>args kwargs w.
                 (Inr (case kwargs ''name'' of Some v \<Rightarrow> v
                       | None \<Rightarrow> (case args of [] \<Rightarrow> NoneV | a # _ \<Rightarrow> a)),
                  w\<lparr>heap := Suc (heap w)\<rparr>))\<rparr>"

text \<open>\<^verbatim>\<open>def label(df, name=None)\<close>: a function with a parameter spelled \<^verbatim>\<open>name\<close>.\<close>

definition label :: "(np_dtype, nat) pyfunc" where
  "label = \<lparr>fname = ''label'', params = [''df'', ''name''],
             body = (\<lambda>args kwargs w.
               (Inr (case args of [] \<Rightarrow> NoneV | a # _ \<Rightarrow> a), w\<lparr>heap := Suc (heap w)\<rparr>))\<rparr>"

section \<open>The column checker: properties\<close>

lemma check_list_ok:
  "check_list S L = Inr () \<longleftrightarrow> (\<forall>c \<in> set L. c \<in> set (columns S))"
  by (induction L) auto

lemma check_list_first_missing:
  "\<forall>p \<in> set pre. p \<in> set (columns S) \<Longrightarrow> c \<notin> set (columns S) \<Longrightarrow>
   check_list S (pre @ c # post) = Inl (AssertionError (ColumnMissing c (describe_pd S False)))"
  by (induction pre) auto

lemma check_dict_ok:
  "check_dict S D = Inr () \<longleftrightarrow> (\<forall>(k, v) \<in> set D. k \<in> set (columns S) \<and> dtype S k = v)"
  by (induction D) (auto split: if_splits)

lemma check_dict_first_mismatch:
  "\<forall>(k', v') \<in> set pre. k' \<in> set (columns S) \<and> dtype S k' = v' \<Longrightarrow>
   k \<in> set (columns S) \<Longrightarrow> dtype S k \<noteq> v \<Longrightarrow>
   check_dict S (pre @ (k, v) # post) = Inl (AssertionError (WrongDtype k (dtype S k) v))"
  by (induction pre) auto

lemma check_dict_first_missing:
  "\<forall>(k', v') \<in> set pre. k' \<in> set (columns S) \<and> dtype S k' = v' \<Longrightarrow>
   k \<notin> set (columns S) \<Longrightarrow>
   check_dict S (pre @ (k, v) # post) = Inl (AssertionError (ColumnMissing k (describe_pd S False)))"
  by (induction pre) auto

lemma check_columns_nonstrict:
  "check_columns S (ListSpec L) False = check_list S L"
  "check_columns S (DictSpec D) False = check_dict S D"
  by (auto simp: check_columns_def check_strict_def split: sum.splits)

text \<open>
  Claim C1. For a list specification and \<^verbatim>\<open>strict=False\<close> the check succeeds exactly
  when every name of the list is among the columns of the dataframe. When a name is absent,
  the AssertionError that is raised names the first absent name of the list and carries
  the description of the dataframe, that is, the list of the columns it has.
\<close>

theorem check_columns_list_nonstrict:
  "(check_columns S (ListSpec L) False = Inr () \<longleftrightarrow> (\<forall>c \<in> set L. c \<in> set (columns S)))
   \<and> (\<forall>pre c post. L = pre @ c # post \<and> (\<forall>p \<in> set pre. p \<in> set (columns S)) \<and> c \<notin> set (columns S)
        \<longrightarrow> check_columns S (ListSpec L) False
              = Inl (AssertionError (ColumnMissing c (Description (columns S) None))))
   \<and> ((\<exists>c \<in> set L. c \<notin> set (columns S))
        \<longrightarrow> (\<exists>c \<in> set L. c \<notin> set (columns S) \<and> check_columns S (ListSpec L) False
              = Inl (AssertionError (ColumnMissing c (Description (columns S) None)))))"
proof (intro conjI allI impI)
  show "check_columns S (ListSpec L) False = Inr () \<longleftrightarrow> (\<forall>c \<in> set L. c \<in> set (columns S))"
    by (simp add: check_columns_nonstrict check_list_ok)
next
  fix pre c post
  assume "L = pre @ c # post \<and> (\<forall>p \<in> set pre. p \<in> set (columns S)) \<and> c \<notin> set (columns S)"
  then show "check_columns S (ListSpec L) False
              = Inl (AssertionError (ColumnMissing c (Description (columns S) None)))"
    using check_list_first_missing [of pre S c post]
    by (simp add: check_columns_nonstrict describe_pd_def)
next
  assume "\<exists>c \<in> set L. c \<notin> set (columns S)"
  then obtain pre c post where
    split: "L = pre @ c # post" "c \<notin> set (columns S)" "\<forall>p \<in> set pre. \<not> p \<notin> set (columns S)"
    using split_list_first_prop [of L "\<lambda>c. c \<notin> set (columns S)"] by blast
  then have "check_list S L = Inl (AssertionError (ColumnMissing c (describe_pd S False)))"
    using check_list_first_missing [of pre S c post] by simp
  with split show "\<exists>c \<in> set L. c \<notin> set (columns S) \<and> check_columns S (ListSpec L) False
              = Inl (AssertionError (ColumnMissing c (Description (columns S) None)))"
    by (auto simp: check_columns_nonstrict describe_pd_def)
qed

text \<open>
  The scenario of the specification: columns \<open>a, b\<close> pass the list \<open>a, b\<close>, and the
  list \<open>a, b, c\<close> fails on \<open>c\<close>.
\<close>

theorem check_columns_list_nonstrict_witness:
  "check_columns \<lparr>columns = [''a'', ''b''], dtype = (\<lambda>c. 0::nat)\<rparr> (ListSpec [''a'', ''b'']) False = Inr ()
   \<and> check_columns \<lparr>columns = [''a'', ''b''], dtype = (\<lambda>c. 0::nat)\<rparr> (ListSpec [''a'', ''b'', ''c'']) False
       = Inl (AssertionError (ColumnMissing ''c'' (Description [''a'', ''b''] None)))"
proof -
  let ?S = "\<lparr>columns = [''a'', ''b''], dtype = (\<lambda>c. 0::nat)\<rparr>"
  have ok: "check_columns ?S (ListSpec [''a'', ''b'']) False = Inr ()"
    using check_columns_list_nonstrict [of ?S "[''a'', ''b'']"] by simp
  have "[''a'', ''b'', ''c''] = [''a'', ''b''] @ ''c'' # []
        \<and> (\<forall>p \<in> set [''a'', ''b'']. p \<in> set (columns ?S)) \<and> ''c'' \<notin> set (columns ?S)"
    by simp
  then have "check_columns ?S (ListSpec [''a'', ''b'', ''c'']) False
       = Inl (AssertionError (ColumnMissing ''c'' (Description (columns ?S) None)))"
    using check_columns_list_nonstrict [of ?S "[''a'', ''b'', ''c'']"] by blast
  with ok show ?thesis by simp
qed

text \<open>
  Claim C2. For a dict specification and \<^verbatim>\<open>strict=False\<close> the check succeeds exactly
  when every key is a column of the dataframe and the dtype of that column equals the value
  of the key. At the first item that fails, a present column of another dtype raises the
  AssertionError that names the column, its actual dtype and the expected dtype; an absent
  key raises the same error as in the list form.
\<close>

theorem check_columns_dict_nonstrict:
  "(check_columns S (DictSpec D) False = Inr ()
      \<longleftrightarrow> (\<forall>(k, v) \<in> set D. k \<in> set (columns S) \<and> dtype S k = v))
   \<and> (\<forall>pre k v post. D = pre @ (k, v) # post
          \<and> (\<forall>(k', v') \<in> set pre. k' \<in> set (columns S) \<and> dtype S k' = v')
          \<and> k \<in> set (columns S) \<and> dtype S k \<noteq> v
        \<longrightarrow> check_columns S (DictSpec D) False
              = Inl (AssertionError (WrongDtype k (dtype S k) v)))
   \<and> (\<forall>pre k v post. D = pre @ (k, v) # post
          \<and> (\<forall>(k', v') \<in> set pre. k' \<in> set (columns S) \<and> dtype S k' = v')
          \<and> k \<notin> set (columns S)
        \<longrightarrow> check_columns S (DictSpec D) False
              = Inl (AssertionError (ColumnMissing k (Description (columns S) None))))"
proof (intro conjI allI impI)
  show "check_columns S (DictSpec D) False = Inr ()
      \<longleftrightarrow> (\<forall>(k, v) \<in> set D. k \<in> set (columns S) \<and> dtype S k = v)"
    by (simp add: check_columns_nonstrict check_dict_ok)
next
  fix pre k v post
  assume "D = pre @ (k, v) # post
          \<and> (\<forall>(k', v') \<in> set pre. k' \<in> set (columns S) \<and> dtype S k' = v')
          \<and> k \<in> set (columns S) \<and> dtype S k \<noteq> v"
  then show "check_columns S (DictSpec D) False
              = Inl (AssertionError (WrongDtype k (dtype S k) v))"
    using check_dict_first_mismatch [of pre S k v post]
    by (simp add: check_columns_nonstrict)
next
  fix pre k v post
  assume "D = pre @ (k, v) # post
          \<and> (\<forall>(k', v') \<in> set pre. k' \<in> set (columns S) \<and> dtype S k' = v')
          \<and> k \<notin> set (columns S)"
  then show "check_columns S (DictSpec D) False
              = Inl (AssertionError (ColumnMissing k (Description (columns S) None)))"
    using check_dict_first_missing [of pre S k v post]
    by (simp add: check_columns_nonstrict describe_pd_def)
qed

text \<open>
  The scenario of the specification: a column \<open>a\<close> of dtype float, declared as int.
\<close>

theorem check_columns_dict_nonstrict_witness:
  "check_columns \<lparr>columns = [''a'', ''b''], dtype = (\<lambda>c. Float64)\<rparr> (DictSpec [(''b'', Float64)]) False = Inr ()
   \<and> check_columns \<lparr>columns = [''a'', ''b''], dtype = (\<lambda>c. Float64)\<rparr> (DictSpec [(''a'', Int64)]) False
       = Inl (AssertionError (WrongDtype ''a'' Float64 Int64))"
proof -
  let ?S = "\<lparr>columns = [''a'', ''b''], dtype = (\<lambda>c. Float64)\<rparr>"
  have ok: "check_columns ?S (DictSpec [(''b'', Float64)]) False = Inr ()"
    using check_columns_dict_nonstrict [of ?S "[(''b'', Float64)]"] by simp
  have "[(''a'', Int64)] = [] @ (''a'', Int64) # []
        \<and> (\<forall>(k', v') \<in> set []. k' \<in> set (columns ?S) \<and> dtype ?S k' = v')
        \<and> ''a'' \<in> set (columns ?S) \<and> dtype ?S ''a'' \<noteq> Int64"
    by simp
  then have "check_columns ?S (DictSpec [(''a'', Int64)]) False
       = Inl (AssertionError (WrongDtype ''a'' (dtype ?S ''a'') Int64))"
    using check_columns_dict_nonstrict [of ?S "[(''a'', Int64)]"] by blast
  with ok show ?thesis by simp
qed

text \<open>
  Claim C3, as stated, fails where the check without strictness fails: the strict check of
  the list \<open>c\<close> on the columns \<open>a, b\<close> raises the error of the missing column \<open>c\<close>, not
  the error that lists the unexpected columns.
\<close>

theorem check_columns_strict_counterexample:
  "check_columns frame_ab (ListSpec [''c'']) True
     = Inl (AssertionError (ColumnMissing ''c'' (Description [''a'', ''b''] None)))
   \<and> check_columns frame_ab (ListSpec [''c'']) True
     \<noteq> Inl (AssertionError
           (UnexpectedColumns (set (columns frame_ab) - set_columns (ListSpec [''c'']))))"
  by (simp add: check_columns_def describe_pd_def frame_ab_def)

text \<open>
  Claim C3, amended. With \<^verbatim>\<open>strict=True\<close> the check succeeds exactly when the check
  without strictness succeeds and the dataframe has as many columns as the specification
  has entries. The count is compared last: when the check without strictness passes and
  the counts differ, the AssertionError carries the set difference of the dataframe's
  columns and the names of the specification; when the check without strictness fails,
  its error is the one raised.
\<close>

theorem check_columns_strict:
  "(check_columns S C True = Inr ()
      \<longleftrightarrow> check_columns S C False = Inr () \<and> length (columns S) = len_columns C)
   \<and> (check_columns S C False = Inr () \<and> length (columns S) \<noteq> len_columns C
        \<longrightarrow> check_columns S C True
              = Inl (AssertionError (UnexpectedColumns (set (columns S) - set_columns C))))
   \<and> (\<forall>e. check_columns S C False = Inl e \<longrightarrow> check_columns S C True = Inl e)"
  by (auto simp: check_columns_def check_strict_def split: sum.splits columns_def.splits)

text \<open>
  The scenarios of the specification: columns \<open>a, b\<close> against \<open>a, b\<close>, and an extra
  column against the same list.
\<close>

theorem check_columns_strict_witness:
  "check_columns \<lparr>columns = [''a'', ''b''], dtype = (\<lambda>c. Int64)\<rparr> (ListSpec [''a'', ''b'']) True = Inr ()
   \<and> check_columns \<lparr>columns = [''a'', ''b'', ''extra''], dtype = (\<lambda>c. Int64)\<rparr> (ListSpec [''a'', ''b'']) True
       = Inl (AssertionError (UnexpectedColumns {''extra''}))
   \<and> check_columns \<lparr>columns = [''a'', ''b''], dtype = (\<lambda>c. Int64)\<rparr> (ListSpec [''c'']) True
       = Inl (AssertionError (ColumnMissing ''c'' (Description [''a'', ''b''] None)))"
proof -
  let ?S = "\<lparr>columns = [''a'', ''b''], dtype = (\<lambda>c. Int64)\<rparr>"
  let ?T = "\<lparr>columns = [''a'', ''b'', ''extra''], dtype = (\<lambda>c. Int64)\<rparr>"
  have n1: "check_columns ?S (ListSpec [''a'', ''b'']) False = Inr ()"
    and n2: "check_columns ?T (ListSpec [''a'', ''b'']) False = Inr ()"
    and n3: "check_columns ?S (ListSpec [''c'']) False
       = Inl (AssertionError (ColumnMissing ''c'' (Description [''a'', ''b''] None)))"
    by (simp_all add: check_columns_nonstrict describe_pd_def)
  have d: "set (columns ?T) - set_columns (ListSpec [''a'', ''b'']) = {''extra''}"
    by auto
  have "check_columns ?S (ListSpec [''a'', ''b'']) True = Inr ()"
    using check_columns_strict [of ?S "ListSpec [''a'', ''b'']"] n1 by simp
  moreover have "check_columns ?T (ListSpec [''a'', ''b'']) True
       = Inl (AssertionError (UnexpectedColumns {''extra''}))"
    using check_columns_strict [of ?T "ListSpec [''a'', ''b'']"] n2 d by simp
  moreover have "check_columns ?S (ListSpec [''c'']) True
       = Inl (AssertionError (ColumnMissing ''c'' (Description [''a'', ''b''] None)))"
    using check_columns_strict [of ?S "ListSpec [''c'']"] n3 by blast
  ultimately show ?thesis by blast
qed

section \<open>The parameter locator: properties\<close>

lemma index_of_Some:
  "x \<in> set ps \<Longrightarrow> \<exists>i. index_of ps x = Some i \<and> i < length ps \<and> ps ! i = x \<and> (\<forall>j<i. ps ! j \<noteq> x)"
proof (induction ps)
  case Nil
  then show ?case by simp
next
  case (Cons p ps)
  show ?case
  proof (cases "p = x")
    case True
    then show ?thesis by simp
  next
    case False
    with Cons obtain i where i: "index_of ps x = Some i" "i < length ps" "ps ! i = x" "\<forall>j<i. ps ! j \<noteq> x"
      by auto
    have "\<forall>j<Suc i. (p # ps) ! j \<noteq> x"
      using False i(4) by (auto simp: nth_Cons split: nat.splits)
    with False i show ?thesis by simp
  qed
qed

lemma index_of_None: "x \<notin> set ps \<Longrightarrow> index_of ps x = None"
  by (induction ps) auto

text \<open>The body of \<^verbatim>\<open>_get_parameter\<close>, once its parameters are bound: without a name it
  returns the first positional argument, or \<^verbatim>\<open>None\<close> when there is none.\<close>

lemma get_parameter_unnamed:
  "get_parameter f None [] kwargs = Inr NoneV"
  "get_parameter f None (a # rest) kwargs = Inr a"
  by (simp_all add: get_parameter_def)

text \<open>The body with the name \<open>x\<close> of a declared parameter.\<close>

lemma get_parameter_named:
  assumes "x \<in> set (params f)" and "x \<noteq> []"
  shows "(\<forall>v. kwargs x = Some v \<longrightarrow> get_parameter f (Some x) args kwargs = Inr v)
     \<and> (kwargs x = None \<longrightarrow>
          (\<exists>i. index_of (params f) x = Some i \<and> i < length (params f) \<and> params f ! i = x
               \<and> (\<forall>j<i. params f ! j \<noteq> x)
               \<and> get_parameter f (Some x) args kwargs
                   = (if i < length args then Inr (args ! i) else Inl IndexError)))"
proof (intro conjI allI impI)
  fix v assume "kwargs x = Some v"
  with assms(2) show "get_parameter f (Some x) args kwargs = Inr v"
    by (simp add: get_parameter_def)
next
  assume none: "kwargs x = None"
  from index_of_Some [OF assms(1)] obtain i where
    i: "index_of (params f) x = Some i" "i < length (params f)" "params f ! i = x"
       "\<forall>j<i. params f ! j \<noteq> x"
    by blast
  from none assms(2) i(1) have
    "get_parameter f (Some x) args kwargs = (if i < length args then Inr (args ! i) else Inl IndexError)"
    by (simp add: get_parameter_def)
  with i show "\<exists>i. index_of (params f) x = Some i \<and> i < length (params f) \<and> params f ! i = x
               \<and> (\<forall>j<i. params f ! j \<noteq> x)
               \<and> get_parameter f (Some x) args kwargs
                   = (if i < length args then Inr (args ! i) else Inl IndexError)"
    by blast
qed

text \<open>
  Claim C4 says that the locator, called without a parameter name, returns the first
  positional argument, or \<^verbatim>\<open>None\<close> when there is none, whatever the keyword arguments
  are. The call \<^verbatim>\<open>_get_parameter(func, None, *args, **kwargs)\<close> does so exactly when no
  keyword is spelled \<^verbatim>\<open>func\<close> or \<^verbatim>\<open>name\<close>; with such a keyword it raises TypeError,
  whatever the positional arguments are.
\<close>

theorem call_get_parameter_unnamed:
  "(kwargs ''func'' = None \<and> kwargs ''name'' = None \<longrightarrow>
      call_get_parameter f None [] kwargs = Inr NoneV
      \<and> call_get_parameter f None (a # rest) kwargs = Inr a)
   \<and> (kwargs ''func'' \<noteq> None \<or> kwargs ''name'' \<noteq> None \<longrightarrow>
      call_get_parameter f None args kwargs = Inl TypeError_multiple_values)"
  by (simp add: call_get_parameter_def get_parameter_unnamed)

text \<open>
  The call \<^verbatim>\<open>label(df, name='x')\<close> under \<^verbatim>\<open>df_in()\<close> or \<^verbatim>\<open>df_log()\<close>: the locator
  raises TypeError and does not return the dataframe. With other keywords it returns the
  first positional argument, or \<^verbatim>\<open>None\<close>.
\<close>

theorem call_get_parameter_unnamed_witness:
  "call_get_parameter label None [DataFrame frame_ab] [''name'' \<mapsto> StrV ''x'']
     = Inl TypeError_multiple_values
   \<and> call_get_parameter label None [DataFrame frame_ab] [''name'' \<mapsto> StrV ''x'']
     \<noteq> Inr (DataFrame frame_ab)
   \<and> call_get_parameter probe None [IntV 1, IntV 2] [''n'' \<mapsto> IntV 5] = Inr (IntV 1)
   \<and> call_get_parameter probe None [] [''df'' \<mapsto> DataFrame frame_ab] = Inr NoneV"
proof -
  have "call_get_parameter label None [DataFrame frame_ab] [''name'' \<mapsto> StrV ''x'']
     = Inl TypeError_multiple_values"
    using call_get_parameter_unnamed [where f = label and args = "[DataFrame frame_ab]"
        and kwargs = "[''name'' \<mapsto> StrV ''x'']"]
    by simp
  moreover have "call_get_parameter probe None [IntV 1, IntV 2] [''n'' \<mapsto> IntV 5] = Inr (IntV 1)"
    using call_get_parameter_unnamed [where f = probe and a = "IntV 1" and rest = "[IntV 2]"
        and kwargs = "[''n'' \<mapsto> IntV 5]"]
    by simp
  moreover have "call_get_parameter probe None [] [''df'' \<mapsto> DataFrame frame_ab] = Inr NoneV"
    using call_get_parameter_unnamed [where f = probe and kwargs = "[''df'' \<mapsto> DataFrame frame_ab]"]
    by simp
  ultimately show ?thesis by simp
qed

text \<open>
  Claim C5 says that the locator, called with the name \<open>x\<close> of a declared parameter of
  \<open>f\<close> (a Python identifier, so not the empty string), returns \<^verbatim>\<open>kwargs[x]\<close> when \<open>x\<close>
  is a keyword of the call, and otherwise the positional argument at the index of \<open>x\<close> in
  the declared parameter order, or IndexError when too few positional arguments were
  supplied. The call \<^verbatim>\<open>_get_parameter(func, x, *args, **kwargs)\<close> does so exactly when
  no keyword is spelled \<^verbatim>\<open>func\<close> or \<^verbatim>\<open>name\<close>; with such a keyword (which may be \<open>x\<close>
  itself) it raises TypeError.
\<close>

theorem call_get_parameter_named:
  assumes "x \<in> set (params f)" and "x \<noteq> []"
  shows "(kwargs ''func'' = None \<and> kwargs ''name'' = None \<longrightarrow>
      (\<forall>v. kwargs x = Some v \<longrightarrow> call_get_parameter f (Some x) args kwargs = Inr v)
      \<and> (kwargs x = None \<longrightarrow>
          (\<exists>i. index_of (params f) x = Some i \<and> i < length (params f) \<and> params f ! i = x
               \<and> (\<forall>j<i. params f ! j \<noteq> x)
               \<and> call_get_parameter f (Some x) args kwargs
                   = (if i < length args then Inr (args ! i) else Inl IndexError))))
   \<and> (kwargs ''func'' \<noteq> None \<or> kwargs ''name'' \<noteq> None \<longrightarrow>
      call_get_parameter f (Some x) args kwargs = Inl TypeError_multiple_values)"
proof -
  have bound: "(\<forall>v. kwargs x = Some v \<longrightarrow> call_get_parameter f (Some x) args kwargs = Inr v)
      \<and> (kwargs x = None \<longrightarrow>
          (\<exists>i. index_of (params f) x = Some i \<and> i < length (params f) \<and> params f ! i = x
               \<and> (\<forall>j<i. params f ! j \<noteq> x)
               \<and> call_get_parameter f (Some x) args kwargs
                   = (if i < length args then Inr (args ! i) else Inl IndexError)))"
    if free: "kwargs ''func'' = None \<and> kwargs ''name'' = None"
  proof -
    from free have eq:
      "call_get_parameter f (Some x) args kwargs = get_parameter f (Some x) args kwargs"
      by (simp add: call_get_parameter_def)
    show ?thesis
      unfolding eq by (rule get_parameter_named [OF assms])
  qed
  have clash: "call_get_parameter f (Some x) args kwargs = Inl TypeError_multiple_values"
    if "kwargs ''func'' \<noteq> None \<or> kwargs ''name'' \<noteq> None"
    using that by (simp add: call_get_parameter_def)
  from bound clash show ?thesis by blast
qed

text \<open>
  The call \<^verbatim>\<open>by_name(name=df)\<close> under \<^verbatim>\<open>df_in(name='name')\<close>, and the call
  \<^verbatim>\<open>label(df=df, name='x')\<close> under \<^verbatim>\<open>df_in(name='df')\<close>: the named parameter is a
  keyword of the call, and the locator raises TypeError. Then the parameter \<open>n\<close> of
  \<open>probe(df, n)\<close>: given by keyword, given by position, and left out.
\<close>

theorem call_get_parameter_named_witness:
  "call_get_parameter by_name (Some ''name'') [] [''name'' \<mapsto> DataFrame frame_ab]
     = Inl TypeError_multiple_values
   \<and> call_get_parameter by_name (Some ''name'') [] [''name'' \<mapsto> DataFrame frame_ab]
     \<noteq> Inr (DataFrame frame_ab)
   \<and> call_get_parameter label (Some ''df'') []
       [''df'' \<mapsto> DataFrame frame_ab, ''name'' \<mapsto> StrV ''x'']
     = Inl TypeError_multiple_values
   \<and> call_get_parameter probe (Some ''n'') [] [''n'' \<mapsto> IntV 5] = Inr (IntV 5)
   \<and> call_get_parameter probe (Some ''n'') [IntV 1, IntV 2] Map.empty = Inr (IntV 2)
   \<and> call_get_parameter probe (Some ''n'') [IntV 1] Map.empty = Inl IndexError"
proof -
  have q: "''name'' \<in> set (params by_name)" "''name'' \<noteq> []"
    by (simp_all add: by_name_def)
  have r: "''df'' \<in> set (params label)" "''df'' \<noteq> []"
    by (simp_all add: label_def)
  have p: "''n'' \<in> set (params probe)" "''n'' \<noteq> []"
    by (simp_all add: probe_def)
  have ix: "index_of (params probe) ''n'' = Some 1"
    by (simp add: probe_def)
  have "call_get_parameter by_name (Some ''name'') [] [''name'' \<mapsto> DataFrame frame_ab]
     = Inl TypeError_multiple_values"
    using call_get_parameter_named [OF q, where kwargs = "[''name'' \<mapsto> DataFrame frame_ab]"
        and args = "[]"]
    by simp
  moreover have "call_get_parameter label (Some ''df'') []
       [''df'' \<mapsto> DataFrame frame_ab, ''name'' \<mapsto> StrV ''x'']
     = Inl TypeError_multiple_values"
    using call_get_parameter_named [OF r, where
        kwargs = "[''df'' \<mapsto> DataFrame frame_ab, ''name'' \<mapsto> StrV ''x'']" and args = "[]"]
    by simp
  moreover have "call_get_parameter probe (Some ''n'') [] [''n'' \<mapsto> IntV 5] = Inr (IntV 5)"
    using call_get_parameter_named [OF p, where kwargs = "[''n'' \<mapsto> IntV 5]" and args = "[]"]
    by simp
  moreover have "call_get_parameter probe (Some ''n'') [IntV 1, IntV 2] Map.empty = Inr (IntV 2)"
    using call_get_parameter_named [OF p, where kwargs = Map.empty and args = "[IntV 1, IntV 2]"] ix
    by auto
  moreover have "call_get_parameter probe (Some ''n'') [IntV 1] Map.empty = Inl IndexError"
    using call_get_parameter_named [OF p, where kwargs = Map.empty and args = "[IntV 1]"] ix
    by auto
  ultimately show ?thesis by simp
qed

section \<open>The decorators: properties\<close>

text \<open>The locator reads the signature of the function, never its body.\<close>

lemma call_get_parameter_body [simp]:
  "call_get_parameter (f\<lparr>body := b\<rparr>) name args kwargs = call_get_parameter f name args kwargs"
  by (simp add: call_get_parameter_def get_parameter_def)

text \<open>
  Claim C6. When the located argument is not a dataframe, the wrapper of \<^verbatim>\<open>df_in\<close>
  raises the AssertionError that names the type of the argument, and it does so whatever
  the body of the function is and without any change to the world: the body is not run.
  When the located argument is a dataframe and the column check (if a specification was
  given) passes, the wrapper is the call \<^verbatim>\<open>func(*args, **kwargs)\<close> itself: same
  arguments, same result, same effects.
\<close>

theorem df_in_guard:
  "(call_get_parameter f name args kwargs = Inr v \<and> \<not> isinstance_DataFrame v
      \<longrightarrow> (\<forall>b. df_in name cols strict (f\<lparr>body := b\<rparr>) args kwargs w
                = (Inl (AssertionError (WrongParameterType (type_name v))), w)))
   \<and> (call_get_parameter f name args kwargs = Inr (DataFrame d)
        \<and> (truthy_columns cols \<longrightarrow> check_columns d (the cols) strict = Inr ())
      \<longrightarrow> df_in name cols strict f args kwargs w = body f args kwargs w)"
proof (intro conjI impI allI)
  fix b
  assume "call_get_parameter f name args kwargs = Inr v \<and> \<not> isinstance_DataFrame v"
  then show "df_in name cols strict (f\<lparr>body := b\<rparr>) args kwargs w
                = (Inl (AssertionError (WrongParameterType (type_name v))), w)"
    by (cases v) (simp_all add: df_in_def)
next
  assume "call_get_parameter f name args kwargs = Inr (DataFrame d)
        \<and> (truthy_columns cols \<longrightarrow> check_columns d (the cols) strict = Inr ())"
  then show "df_in name cols strict f args kwargs w = body f args kwargs w"
    by (simp add: df_in_def)
qed

text \<open>
  The probe counts its calls in the heap: the counter stays at 0 when an \<^verbatim>\<open>int\<close> is
  passed, and goes to 1 when a dataframe with the column \<open>a\<close> is passed.
\<close>

theorem df_in_guard_witness:
  "df_in None (Some (ListSpec [''a''])) False probe [IntV 3] Map.empty world0
     = (Inl (AssertionError (WrongParameterType ''int'')), \<lparr>log = [], heap = 0\<rparr>)
   \<and> df_in None (Some (ListSpec [''a''])) False probe [DataFrame frame_ab] Map.empty world0
     = (Inr (IntV 7), \<lparr>log = [], heap = 1\<rparr>)"
proof -
  have l1: "call_get_parameter probe None [IntV 3] Map.empty = Inr (IntV 3)
            \<and> \<not> isinstance_DataFrame (IntV 3 :: np_dtype pyvalue)"
    by (simp add: call_get_parameter_def get_parameter_def)
  have l2: "call_get_parameter probe None [DataFrame frame_ab] Map.empty = Inr (DataFrame frame_ab)
            \<and> (truthy_columns (Some (ListSpec [''a''])) \<longrightarrow>
                 check_columns frame_ab (the (Some (ListSpec [''a'']))) False = Inr ())"
    by (simp add: call_get_parameter_def get_parameter_def check_columns_def check_strict_def
        frame_ab_def)
  have "df_in None (Some (ListSpec [''a''])) False (probe\<lparr>body := body probe\<rparr>) [IntV 3] Map.empty world0
     = (Inl (AssertionError (WrongParameterType (type_name (IntV 3 :: np_dtype pyvalue)))), world0)"
    using df_in_guard [where f = probe and name = None and args = "[IntV 3]" and kwargs = Map.empty and v = "IntV 3"] l1 by blast
  moreover have "df_in None (Some (ListSpec [''a''])) False probe [DataFrame frame_ab] Map.empty world0
     = body probe [DataFrame frame_ab] Map.empty world0"
    using df_in_guard [where f = probe and name = None and args = "[DataFrame frame_ab]" and kwargs = Map.empty and d = frame_ab] l2 by blast
  ultimately show ?thesis
    by (simp add: probe_def world0_def)
qed

text \<open>
  Claim C7. The wrapper of \<^verbatim>\<open>df_out\<close> calls the function first. When the function raises,
  its exception and its world are the outcome, whatever the specification is. When it
  returns a dataframe that passes the column check (if a specification was given), that
  result is returned unchanged. A result that is not a dataframe raises the AssertionError
  of the return type, in the world the function left.
\<close>

theorem df_out_guard:
  "(body f args kwargs w = (Inl e, w') \<longrightarrow> df_out cols strict f args kwargs w = (Inl e, w'))
   \<and> (body f args kwargs w = (Inr (DataFrame d), w')
        \<and> (truthy_columns cols \<longrightarrow> check_columns d (the cols) strict = Inr ())
      \<longrightarrow> df_out cols strict f args kwargs w = (Inr (DataFrame d), w'))
   \<and> (body f args kwargs w = (Inr r, w') \<and> \<not> isinstance_DataFrame r
      \<longrightarrow> df_out cols strict f args kwargs w
            = (Inl (AssertionError (WrongReturnType (type_name r))), w'))"
proof (intro conjI impI)
  assume "body f args kwargs w = (Inl e, w')"
  then show "df_out cols strict f args kwargs w = (Inl e, w')"
    by (simp add: df_out_def)
next
  assume "body f args kwargs w = (Inr (DataFrame d), w')
        \<and> (truthy_columns cols \<longrightarrow> check_columns d (the cols) strict = Inr ())"
  then show "df_out cols strict f args kwargs w = (Inr (DataFrame d), w')"
    by (simp add: df_out_def)
next
  assume "body f args kwargs w = (Inr r, w') \<and> \<not> isinstance_DataFrame r"
  then show "df_out cols strict f args kwargs w
            = (Inl (AssertionError (WrongReturnType (type_name r))), w')"
    by (cases r) (simp_all add: df_out_def)
qed

text \<open>
  A function that raises under a specification its result could never meet; a function
  that returns the dataframe \<open>a, b\<close> under the strict specification \<open>a, b\<close>; and a function
  that returns an \<^verbatim>\<open>int\<close>.
\<close>

theorem df_out_guard_witness:
  "df_out (Some (ListSpec [''missing''])) True failing [] Map.empty world0
     = (Inl (Raised ''boom''), \<lparr>log = [], heap = 1\<rparr>)
   \<and> df_out (Some (ListSpec [''a'', ''b''])) True make_frame [] Map.empty world0
     = (Inr (DataFrame frame_ab), \<lparr>log = [], heap = 1\<rparr>)
   \<and> df_out None False probe [] Map.empty world0
     = (Inl (AssertionError (WrongReturnType ''int'')), \<lparr>log = [], heap = 1\<rparr>)"
proof -
  have b1: "body failing [] Map.empty world0 = (Inl (Raised ''boom''), \<lparr>log = [], heap = 1\<rparr>)"
    by (simp add: failing_def world0_def)
  have b2: "body make_frame [] Map.empty world0 = (Inr (DataFrame frame_ab), \<lparr>log = [], heap = 1\<rparr>)
            \<and> (truthy_columns (Some (ListSpec [''a'', ''b''])) \<longrightarrow>
                 check_columns frame_ab (the (Some (ListSpec [''a'', ''b'']))) True = Inr ())"
    by (simp add: make_frame_def world0_def check_columns_def check_strict_def frame_ab_def)
  have b3: "body probe [] Map.empty world0 = (Inr (IntV 7), \<lparr>log = [], heap = 1\<rparr>)
            \<and> \<not> isinstance_DataFrame (IntV 7 :: np_dtype pyvalue)"
    by (simp add: probe_def world0_def)
  have "df_out (Some (ListSpec [''missing''])) True failing [] Map.empty world0
     = (Inl (Raised ''boom''), \<lparr>log = [], heap = 1\<rparr>)"
    using df_out_guard [where f = failing and args = "[]" and kwargs = Map.empty and w = world0] b1 by blast
  moreover have "df_out (Some (ListSpec [''a'', ''b''])) True make_frame [] Map.empty world0
     = (Inr (DataFrame frame_ab), \<lparr>log = [], heap = 1\<rparr>)"
    using df_out_guard [where f = make_frame and args = "[]" and kwargs = Map.empty and w = world0] b2 by blast
  moreover have "df_out None False probe [] Map.empty world0
     = (Inl (AssertionError (WrongReturnType (type_name (IntV 7 :: np_dtype pyvalue)))), \<lparr>log = [], heap = 1\<rparr>)"
    using df_out_guard [where f = probe and args = "[]" and kwargs = Map.empty and w = world0] b3 by blast
  ultimately show ?thesis by simp
qed

text \<open>
  Claim C8. The wrapper of \<^verbatim>\<open>df_log\<close> never returns a value other than \<^verbatim>\<open>None\<close>. When its
  call of the locator succeeds and the function returns \<open>r\<close>, the wrapper logs the
  result and returns \<^verbatim>\<open>None\<close>, not \<open>r\<close>.
\<close>

theorem df_log_discards:
  "(\<forall>v w'. df_log level include_dtypes f args kwargs w = (Inr v, w') \<longrightarrow> v = NoneV)
   \<and> (call_get_parameter f None args kwargs = Inr p
        \<and> body f args kwargs (log_input level (fname f) p include_dtypes w) = (Inr r, w')
      \<longrightarrow> df_log level include_dtypes f args kwargs w
            = (Inr NoneV, log_output level (fname f) r include_dtypes w'))"
  by (auto simp: df_log_def split: sum.splits prod.splits)

text \<open>
  A function that returns a dataframe and one that returns 7: both decorated calls return
  \<^verbatim>\<open>None\<close>.
\<close>

theorem df_log_discards_witness:
  "df_log 10 False make_frame [IntV 3] Map.empty world0
     = (Inr NoneV, \<lparr>log = [(10, Returned ''make_frame'' (Description [''a'', ''b''] None))], heap = 1\<rparr>)
   \<and> df_log 10 False probe [] Map.empty world0 = (Inr NoneV, \<lparr>log = [], heap = 1\<rparr>)"
proof -
  have h1: "call_get_parameter make_frame None [IntV 3] Map.empty = Inr (IntV 3)
        \<and> body make_frame [IntV 3] Map.empty (log_input 10 (fname make_frame) (IntV 3) False world0)
            = (Inr (DataFrame frame_ab), \<lparr>log = [], heap = 1\<rparr>)"
    by (simp add: call_get_parameter_def get_parameter_def make_frame_def log_input_def world0_def)
  have h2: "call_get_parameter probe None [] Map.empty = Inr NoneV
        \<and> body probe [] Map.empty (log_input 10 (fname probe) NoneV False world0)
            = (Inr (IntV 7), \<lparr>log = [], heap = 1\<rparr>)"
    by (simp add: call_get_parameter_def get_parameter_def probe_def log_input_def world0_def)
  have "df_log 10 False make_frame [IntV 3] Map.empty world0
     = (Inr NoneV, log_output 10 (fname make_frame) (DataFrame frame_ab) False \<lparr>log = [], heap = 1\<rparr>)"
    using df_log_discards [where f = make_frame and args = "[IntV 3]" and kwargs = Map.empty and w = world0] h1 by blast
  moreover have "df_log 10 False probe [] Map.empty world0
     = (Inr NoneV, log_output 10 (fname probe) (IntV 7) False \<lparr>log = [], heap = 1\<rparr>)"
    using df_log_discards [where f = probe and args = "[]" and kwargs = Map.empty and w = world0] h2 by blast
  ultimately show ?thesis
    by (simp add: log_output_def describe_pd_def make_frame_def probe_def frame_ab_def)
qed

lemma not_truthy_columns:
  "\<not> truthy_columns cols \<longleftrightarrow> cols = None \<or> cols = Some (ListSpec []) \<or> cols = Some (DictSpec [])"
  by (cases cols rule: truthy_columns.cases) auto

text \<open>
  Claim C9, as stated, fails on the column checker itself: with \<^verbatim>\<open>strict=True\<close> an empty
  specification has length 0, and a dataframe with columns does not.
\<close>

theorem empty_spec_counterexample:
  "check_columns frame_ab (ListSpec []) True
     = Inl (AssertionError (UnexpectedColumns {''a'', ''b''}))"
  by (auto simp: check_columns_def check_strict_def frame_ab_def)

text \<open>
  Claim C9, amended. The wrappers of \<^verbatim>\<open>df_in\<close> and \<^verbatim>\<open>df_out\<close> do not call the column
  checker when the specification is absent or empty, for both values of \<^verbatim>\<open>strict\<close>: they
  behave as the wrappers without a specification. The column checker, given an empty
  specification, succeeds when \<^verbatim>\<open>strict\<close> is false; when \<^verbatim>\<open>strict\<close> is true it succeeds
  exactly when the dataframe has no column.
\<close>

theorem empty_spec_skipped:
  "check_columns S (ListSpec []) False = Inr ()
   \<and> check_columns S (DictSpec []) False = Inr ()
   \<and> (check_columns S (ListSpec []) True = Inr () \<longleftrightarrow> columns S = [])
   \<and> (check_columns S (DictSpec []) True = Inr () \<longleftrightarrow> columns S = [])
   \<and> (\<not> truthy_columns cols
         \<longleftrightarrow> cols = None \<or> cols = Some (ListSpec []) \<or> cols = Some (DictSpec []))
   \<and> (\<not> truthy_columns cols \<longrightarrow>
         df_in name cols strict f args kwargs w = df_in name None False f args kwargs w
         \<and> (\<forall>d. call_get_parameter f name args kwargs = Inr (DataFrame d)
               \<longrightarrow> df_in name cols strict f args kwargs w = body f args kwargs w))
   \<and> (\<not> truthy_columns cols \<longrightarrow>
         df_out cols strict f args kwargs w = df_out None False f args kwargs w
         \<and> (\<forall>d w'. body f args kwargs w = (Inr (DataFrame d), w')
               \<longrightarrow> df_out cols strict f args kwargs w = (Inr (DataFrame d), w')))"
proof (intro conjI impI allI)
  show "check_columns S (ListSpec []) False = Inr ()"
    and "check_columns S (DictSpec []) False = Inr ()"
    by (simp_all add: check_columns_def check_strict_def)
  show "check_columns S (ListSpec []) True = Inr () \<longleftrightarrow> columns S = []"
    and "check_columns S (DictSpec []) True = Inr () \<longleftrightarrow> columns S = []"
    by (simp_all add: check_columns_def check_strict_def)
  show "\<not> truthy_columns cols
         \<longleftrightarrow> cols = None \<or> cols = Some (ListSpec []) \<or> cols = Some (DictSpec [])"
    by (rule not_truthy_columns)
next
  assume "\<not> truthy_columns cols"
  then show "df_in name cols strict f args kwargs w = df_in name None False f args kwargs w"
    by (simp add: df_in_def split: sum.splits pyvalue.splits)
next
  fix d
  assume "\<not> truthy_columns cols" "call_get_parameter f name args kwargs = Inr (DataFrame d)"
  then show "df_in name cols strict f args kwargs w = body f args kwargs w"
    by (simp add: df_in_def)
next
  assume "\<not> truthy_columns cols"
  then show "df_out cols strict f args kwargs w = df_out None False f args kwargs w"
    by (simp add: df_out_def split: prod.splits sum.splits pyvalue.splits)
next
  fix d w'
  assume "\<not> truthy_columns cols" "body f args kwargs w = (Inr (DataFrame d), w')"
  then show "df_out cols strict f args kwargs w = (Inr (DataFrame d), w')"
    by (simp add: df_out_def)
qed

text \<open>
  Both wrappers with an empty specification and \<^verbatim>\<open>strict=True\<close>, on the dataframe
  \<open>a, b\<close> that the strict check of the same specification rejects.
\<close>

theorem empty_spec_skipped_witness:
  "df_in None (Some (ListSpec [])) True probe [DataFrame frame_ab] Map.empty world0
     = (Inr (IntV 7), \<lparr>log = [], heap = 1\<rparr>)
   \<and> df_out (Some (DictSpec [])) True make_frame [] Map.empty world0
     = (Inr (DataFrame frame_ab), \<lparr>log = [], heap = 1\<rparr>)
   \<and> check_columns frame_ab (ListSpec []) False = Inr ()
   \<and> check_columns frame_ab (ListSpec []) True \<noteq> Inr ()"
proof -
  have t1: "\<not> truthy_columns (Some (ListSpec []) :: np_dtype columns_def option)"
    and t2: "\<not> truthy_columns (Some (DictSpec []) :: np_dtype columns_def option)"
    by simp_all
  have l: "call_get_parameter probe None [DataFrame frame_ab] Map.empty = Inr (DataFrame frame_ab)"
    by (simp add: call_get_parameter_def get_parameter_def)
  have b: "body make_frame [] Map.empty world0 = (Inr (DataFrame frame_ab), \<lparr>log = [], heap = 1\<rparr>)"
    by (simp add: make_frame_def world0_def)
  have ne: "columns frame_ab \<noteq> []"
    by (simp add: frame_ab_def)
  have "df_in None (Some (ListSpec [])) True probe [DataFrame frame_ab] Map.empty world0
     = body probe [DataFrame frame_ab] Map.empty world0"
    using empty_spec_skipped [where cols = "Some (ListSpec [])" and name = None and f = probe
        and args = "[DataFrame frame_ab]" and kwargs = Map.empty] t1 l
    by blast
  moreover have "df_out (Some (DictSpec [])) True make_frame [] Map.empty world0
     = (Inr (DataFrame frame_ab), \<lparr>log = [], heap = 1\<rparr>)"
    using empty_spec_skipped [where cols = "Some (DictSpec [])" and f = make_frame
        and args = "[]" and kwargs = Map.empty and w = world0] t2 b
    by blast
  moreover have "check_columns frame_ab (ListSpec []) False = Inr ()"
    and "check_columns frame_ab (ListSpec []) True \<noteq> Inr ()"
    using empty_spec_skipped [where S = frame_ab] ne by blast+
  ultimately show ?thesis
    by (simp add: probe_def world0_def)
qed

text \<open>Without such a keyword, a call with no positional argument and no name fails on
  the type of \<^verbatim>\<open>None\<close>.\<close>

lemma df_in_no_positional:
  "\<not> truthy_name name \<Longrightarrow> kwargs ''func'' = None \<Longrightarrow> kwargs ''name'' = None \<Longrightarrow>
   df_in name cols strict f [] kwargs w
     = (Inl (AssertionError (WrongParameterType ''NoneType'')), w)"
  by (simp add: df_in_def call_get_parameter_def get_parameter_def)

text \<open>The same keywords stop the wrapper of \<^verbatim>\<open>df_log\<close> before the function is called.\<close>

lemma df_log_keyword_collision:
  "kwargs ''func'' \<noteq> None \<or> kwargs ''name'' \<noteq> None \<Longrightarrow>
   df_log level include_dtypes f args kwargs w = (Inl TypeError_multiple_values, w)"
  by (auto simp: df_log_def call_get_parameter_def)

text \<open>
  Claim C10 says that a call without positional arguments of a function decorated by
  \<^verbatim>\<open>df_in\<close> without a name fails with the AssertionError of the parameter type, whatever
  the keywords are. The code does so unless a keyword is spelled \<^verbatim>\<open>func\<close> or \<^verbatim>\<open>name\<close>:
  then the wrapper's call of \<^verbatim>\<open>_get_parameter\<close> raises TypeError, whatever the other
  arguments are.
\<close>

theorem df_in_keyword_collision:
  "kwargs ''func'' \<noteq> None \<or> kwargs ''name'' \<noteq> None \<Longrightarrow>
   df_in name cols strict f args kwargs w = (Inl TypeError_multiple_values, w)"
  by (auto simp: df_in_def call_get_parameter_def)

text \<open>
  The call \<^verbatim>\<open>by_name(name=df)\<close> of a function decorated with \<^verbatim>\<open>df_in()\<close>.
\<close>

theorem df_in_keyword_collision_witness:
  "df_in None None False by_name [] [''name'' \<mapsto> DataFrame frame_ab] world0
     = (Inl TypeError_multiple_values, world0)
   \<and> df_in None None False by_name [] [''name'' \<mapsto> DataFrame frame_ab] world0
     \<noteq> (Inl (AssertionError (WrongParameterType ''NoneType'')), world0)"
  using df_in_keyword_collision [where kwargs = "[''name'' \<mapsto> DataFrame frame_ab]"
      and name = None and cols = None and strict = False and f = by_name and args = "[]"
      and w = world0]
  by simp

end
